theory Spec2Isabelle
  imports Complex_Main "HOL-Library.Char_ord" "HOL-Library.List_Lexorder" "HOL-Library.Multiset"
begin

section \<open>JavaScript strings\<close>

text \<open>
  Strings are character lists. The helpers below are the \<^verbatim>\<open>String.prototype\<close> methods the
  resolver and the asset loader call: \<^verbatim>\<open>startsWith\<close>, \<^verbatim>\<open>replace\<close> with a string pattern
  (which replaces the first occurrence only, wherever it is), \<^verbatim>\<open>split\<close> on a one-character
  separator (which always returns at least one piece) and \<^verbatim>\<open>Array.prototype.join\<close>;
  \<^verbatim>\<open>includes\<close> comes with the liquids below. An exception is a value of \<open>js_error\<close>.
\<close>

datatype js_error = TypeError | Error string

definition startsWith :: "string \<Rightarrow> string \<Rightarrow> bool" where
  "startsWith s p = (take (length p) s = p)"

fun replace_first :: "string \<Rightarrow> string \<Rightarrow> string" where
  "replace_first pat [] = []"
| "replace_first pat (c # cs) =
     (if startsWith (c # cs) pat then drop (length pat) (c # cs)
      else c # replace_first pat cs)"

fun split_char :: "char \<Rightarrow> string \<Rightarrow> string list" where
  "split_char d [] = [[]]"
| "split_char d (c # cs) =
     (if c = d then [] # split_char d cs
      else (case split_char d cs of
              [] \<Rightarrow> [[c]]
            | p # ps \<Rightarrow> (c # p) # ps))"

fun join_with :: "string \<Rightarrow> string list \<Rightarrow> string" where
  "join_with sep [] = []"
| "join_with sep [s] = s"
| "join_with sep (s # t # ts) = s @ sep @ join_with sep (t # ts)"

section \<open>Blocks, blockstate definitions and model references (types.ts)\<close>

text \<open>
  \<^verbatim>\<open>Block.properties\<close> is a \<^verbatim>\<open>Record<string, string>\<close>; it is kept as an association list in
  the enumeration order of \<^verbatim>\<open>Object.entries\<close>, read with \<^const>\<open>map_of\<close>. The same holds for
  the \<^verbatim>\<open>variants\<close> object of a blockstate definition and for a condition map. Optional
  fields are options, \<^verbatim>\<open>undefined\<close> being \<^const>\<open>None\<close>. Only own properties are modelled:
  keys that name members of \<^verbatim>\<open>Object.prototype\<close> are outside the model. The fields of
  \<^verbatim>\<open>ModelData\<close> and \<^verbatim>\<open>BlockStateModelHolder\<close> carry a prefix, since a record field is a
  constant and \<^verbatim>\<open>x\<close>, \<^verbatim>\<open>y\<close> would capture those variable names.
\<close>

record Block =
  namespace :: string
  name :: string
  properties :: "(string \<times> string) list"

record ModelData =
  md_model :: string
  md_x :: "int option"
  md_y :: "int option"
  md_uvlock :: "bool option"

record BlockStateModelHolder =
  holder_model :: string
  holder_x :: "int option"
  holder_y :: "int option"
  holder_uvlock :: "bool option"
  holder_weight :: "int option"

datatype holder_or_list =
  Single BlockStateModelHolder
| Multiple "BlockStateModelHolder list"

type_synonym condition = "(string \<times> string) list"

datatype when_clause =
  OR "condition list"
| Cond condition

record BlockStateMultipart =
  part_when :: "when_clause option"
  part_apply :: holder_or_list

record BlockStateDefinition =
  variants :: "(string \<times> holder_or_list) list option"
  multipart :: "BlockStateMultipart list option"

section \<open>ModelResolver\<close>

definition createModelData :: "BlockStateModelHolder \<Rightarrow> ModelData" where
  "createModelData modelHolder =
     \<lparr> md_model = holder_model modelHolder, md_x = holder_x modelHolder,
       md_y = holder_y modelHolder, md_uvlock = holder_uvlock modelHolder \<rparr>"

text \<open>
  \<^verbatim>\<open>createModelData(variant[0])\<close> on an empty array reads \<^verbatim>\<open>undefined.model\<close>, which throws
  a \<^verbatim>\<open>TypeError\<close>.
\<close>

fun firstModelData :: "holder_or_list \<Rightarrow> js_error + ModelData" where
  "firstModelData (Single h) = Inr (createModelData h)"
| "firstModelData (Multiple []) = Inl TypeError"
| "firstModelData (Multiple (h # hs)) = Inr (createModelData h)"

subsection \<open>Variant selection\<close>

definition propertyName :: "string \<Rightarrow> string" where
  "propertyName part = (case split_char CHR ''='' part of [] \<Rightarrow> [] | n # rest \<Rightarrow> n)"

definition validVariantProperties :: "string list \<Rightarrow> string list" where
  "validVariantProperties variantKeys =
     concat (map (\<lambda>key. map propertyName (split_char CHR '','' key))
                 (filter (\<lambda>key. key \<noteq> []) variantKeys))"

definition buildVariantKey :: "string list \<Rightarrow> (string \<times> string) list \<Rightarrow> string" where
  "buildVariantKey variantKeys props =
     (if props \<noteq> [] then
        join_with '',''
          (sort (map (\<lambda>(key, value). key @ ''='' @ value)
                     (filter (\<lambda>(key, value). key \<in> set (validVariantProperties variantKeys)) props)))
      else [])"

text \<open>
  \<^verbatim>\<open>const [name, value] = prop.split("=")\<close>: the value is \<^verbatim>\<open>undefined\<close> when the piece has
  no \<^verbatim>\<open>=\<close>, and anything after a second \<^verbatim>\<open>=\<close> is dropped.
\<close>

definition variantProp :: "string \<Rightarrow> string \<times> string option" where
  "variantProp prop =
     (case split_char CHR ''='' prop of
        [] \<Rightarrow> ([], None)
      | [n] \<Rightarrow> (n, None)
      | n # v # rest \<Rightarrow> (n, Some v))"

definition variantProps :: "string \<Rightarrow> (string \<times> string option) list" where
  "variantProps key = map variantProp (split_char CHR '','' key)"

text \<open>
  The inner loop over the block's properties: it counts the agreeing properties and leaves
  at the first conflicting one with \<^verbatim>\<open>allMatch = false\<close>.
\<close>

fun countMatches ::
  "(string \<times> string option) list \<Rightarrow> (string \<times> string) list \<Rightarrow> nat \<Rightarrow> nat \<times> bool" where
  "countMatches vps [] matchCount = (matchCount, True)"
| "countMatches vps ((propName, propValue) # rest) matchCount =
     (case find (\<lambda>p. fst p = propName) vps of
        None \<Rightarrow> countMatches vps rest matchCount
      | Some matchingProp \<Rightarrow>
          if snd matchingProp = Some propValue then countMatches vps rest (matchCount + 1)
          else (matchCount, False))"

text \<open>The outer loop over the variant keys, with its two accumulators.\<close>

fun bestMatchLoop ::
  "string list \<Rightarrow> (string \<times> string) list \<Rightarrow> string \<times> int \<Rightarrow> string \<times> int" where
  "bestMatchLoop [] targetProps best = best"
| "bestMatchLoop (key # keys) targetProps (bestVariantKey, bestMatchCount) =
     (if key = [] then bestMatchLoop keys targetProps (bestVariantKey, bestMatchCount)
      else
        (case countMatches (variantProps key) targetProps 0 of
           (matchCount, allMatch) \<Rightarrow>
             if allMatch \<and> int matchCount > bestMatchCount
             then bestMatchLoop keys targetProps (key, int matchCount)
             else bestMatchLoop keys targetProps (bestVariantKey, bestMatchCount)))"

fun singlePropertyLoop ::
  "(string \<times> holder_or_list) list \<Rightarrow> (string \<times> string) list \<Rightarrow> holder_or_list option" where
  "singlePropertyLoop vs [] = None"
| "singlePropertyLoop vs ((key, value) # rest) =
     (case map_of vs (key @ ''='' @ value) of
        Some v \<Rightarrow> Some v
      | None \<Rightarrow> singlePropertyLoop vs rest)"

definition selectVariant ::
  "(string \<times> holder_or_list) list \<Rightarrow> (string \<times> string) list \<Rightarrow> holder_or_list option" where
  "selectVariant vs props =
     (let variantKeys = map fst vs;
          variantKey = buildVariantKey variantKeys props
      in case map_of vs variantKey of
           Some v \<Rightarrow> Some v
         | None \<Rightarrow>
            (case map_of vs [] of
               Some v \<Rightarrow> Some v
             | None \<Rightarrow>
                (let bestVariantKey = fst (bestMatchLoop variantKeys props ([], -1));
                     variant3 = (if bestVariantKey \<noteq> [] then map_of vs bestVariantKey else None);
                     variant4 = (if variant3 = None \<and> props \<noteq> []
                                 then singlePropertyLoop vs props else variant3);
                     variant5 = (if variant4 = None \<and> variantKeys \<noteq> []
                                 then map_of vs (hd variantKeys) else variant4)
                 in variant5)))"

definition resolveVariants ::
  "(string \<times> holder_or_list) list \<Rightarrow> (string \<times> string) list \<Rightarrow> js_error + ModelData list" where
  "resolveVariants vs props =
     (case selectVariant vs props of
        None \<Rightarrow> Inr []
      | Some variant \<Rightarrow>
          (case firstModelData variant of
             Inl e \<Rightarrow> Inl e
           | Inr m \<Rightarrow> Inr [m]))"

subsection \<open>Multipart rules\<close>

fun matchesCondition :: "(string \<times> string) list \<Rightarrow> condition \<Rightarrow> bool" where
  "matchesCondition props [] = True"
| "matchesCondition props ((property, valueStr) # rest) =
     (case map_of props property of
        None \<Rightarrow> False
      | Some blockValueStr \<Rightarrow>
          if CHR ''|'' \<in> set valueStr then
            (if blockValueStr \<notin> set (split_char CHR ''|'' valueStr) then False
             else matchesCondition props rest)
          else if blockValueStr \<noteq> valueStr then False
          else matchesCondition props rest)"

fun anyMatches :: "(string \<times> string) list \<Rightarrow> condition list \<Rightarrow> bool" where
  "anyMatches props [] = False"
| "anyMatches props (c # cs) = (if matchesCondition props c then True else anyMatches props cs)"

definition partApplies :: "(string \<times> string) list \<Rightarrow> BlockStateMultipart \<Rightarrow> bool" where
  "partApplies props part =
     (case part_when part of
        None \<Rightarrow> True
      | Some (OR conditions) \<Rightarrow> anyMatches props conditions
      | Some (Cond c) \<Rightarrow> matchesCondition props c)"

fun resolveMultipart ::
  "BlockStateMultipart list \<Rightarrow> (string \<times> string) list \<Rightarrow> ModelData list
     \<Rightarrow> js_error + ModelData list" where
  "resolveMultipart [] props models = Inr models"
| "resolveMultipart (part # parts) props models =
     (if partApplies props part then
        (case firstModelData (part_apply part) of
           Inl e \<Rightarrow> Inl e
         | Inr m \<Rightarrow> resolveMultipart parts props (models @ [m]))
      else resolveMultipart parts props models)"

subsection \<open>Liquids\<close>

text \<open>
  \<^verbatim>\<open>parseInt(s, 10)\<close>: leading white space is skipped, one sign is read, then the longest
  run of decimal digits; no digit gives \<^verbatim>\<open>NaN\<close>, here \<^const>\<open>None\<close>. Numbers are unbounded
  integers in the model (a JavaScript number is exact up to \<^verbatim>\<open>2^53\<close>).
\<close>

definition isDigit :: "char \<Rightarrow> bool" where
  "isDigit c = (48 \<le> (of_char c :: nat) \<and> (of_char c :: nat) \<le> 57)"

definition digitValue :: "char \<Rightarrow> nat" where
  "digitValue c = of_char c - 48"

fun digitsValue :: "string \<Rightarrow> nat \<Rightarrow> nat" where
  "digitsValue [] acc = acc"
| "digitsValue (c # cs) acc = digitsValue cs (10 * acc + digitValue c)"

definition isWhiteSpace :: "char \<Rightarrow> bool" where
  "isWhiteSpace c = ((of_char c :: nat) \<in> {9, 10, 11, 12, 13, 32})"

definition parseInt10 :: "string \<Rightarrow> int option" where
  "parseInt10 s =
     (let trimmed = dropWhile isWhiteSpace s;
          negative = (case trimmed of [] \<Rightarrow> False | c # cs \<Rightarrow> c = CHR ''-'');
          unsigned = (case trimmed of [] \<Rightarrow> []
                      | c # cs \<Rightarrow> if c = CHR ''-'' \<or> c = CHR ''+'' then cs else c # cs);
          digits = takeWhile isDigit unsigned
      in if digits = [] then None
         else Some (if negative then - int (digitsValue digits 0) else int (digitsValue digits 0)))"

fun showNat :: "nat \<Rightarrow> string" where
  "showNat n = (if n < 10 then [char_of (48 + n)]
                else showNat (n div 10) @ [char_of (48 + n mod 10)])"

declare showNat.simps [simp del]

definition numberToString :: "int option \<Rightarrow> string" where
  "numberToString v =
     (case v of
        None \<Rightarrow> ''NaN''
      | Some i \<Rightarrow> if i < 0 then CHR ''-'' # showNat (nat (- i)) else showNat (nat i))"

fun str_includes :: "string \<Rightarrow> string \<Rightarrow> bool" where
  "str_includes [] sub = (sub = [])"
| "str_includes (c # cs) sub = (startsWith (c # cs) sub \<or> str_includes cs sub)"

definition liquidNames :: "string list" where
  "liquidNames = [''water'', ''flowing_water'', ''lava'', ''flowing_lava'']"

definition liquidLevel :: "Block \<Rightarrow> int option" where
  "liquidLevel block =
     (case map_of (properties block) ''level'' of
        None \<Rightarrow> Some 0
      | Some levelStr \<Rightarrow> if levelStr = [] then Some 0 else parseInt10 levelStr)"

definition liquidModelPath :: "Block \<Rightarrow> string" where
  "liquidModelPath block =
     (let isWater = str_includes (name block) ''water'';
          level = liquidLevel block
      in if isWater
         then (if level = Some 0 then ''block/water''
               else ''block/water_level_'' @ numberToString level)
         else (if level = Some 0 then ''block/lava''
               else ''block/lava_level_'' @ numberToString level))"

definition createLiquidModelData :: "Block \<Rightarrow> ModelData list" where
  "createLiquidModelData block =
     [\<lparr> md_model = liquidModelPath block, md_x = Some 0, md_y = Some 0,
        md_uvlock = Some False \<rparr>]"

subsection \<open>Blockstate lookup and the resolver's entry point\<close>

text \<open>
  The resource accessor returns the text of a file or nothing; every caller treats an
  empty text like a missing file, so the store gives \<^const>\<open>None\<close> for both. A text
  that \<^verbatim>\<open>JSON.parse\<close> rejects is \<open>Malformed\<close>.
\<close>

datatype 'a json_file = Malformed | Parsed 'a

definition emptyBlockState :: BlockStateDefinition where
  "emptyBlockState = \<lparr> variants = None, multipart = None \<rparr>"

definition getBlockState ::
  "(string \<rightharpoonup> BlockStateDefinition) \<Rightarrow> (string \<Rightarrow> BlockStateDefinition json_file option)
     \<Rightarrow> string \<Rightarrow> BlockStateDefinition \<times> (string \<rightharpoonup> BlockStateDefinition)" where
  "getBlockState blockStateCache store blockId0 =
     (let blockId = replace_first ''minecraft:'' blockId0;
          cacheKey = ''blockstate:'' @ blockId
      in case blockStateCache cacheKey of
           Some d \<Rightarrow> (d, blockStateCache)
         | None \<Rightarrow>
            (case store (''blockstates/'' @ blockId @ ''.json'') of
               None \<Rightarrow> (emptyBlockState, blockStateCache)
             | Some Malformed \<Rightarrow> (emptyBlockState, blockStateCache)
             | Some (Parsed d) \<Rightarrow> (d, blockStateCache(cacheKey \<mapsto> d))))"

definition resolveDefinition ::
  "BlockStateDefinition \<Rightarrow> (string \<times> string) list \<Rightarrow> js_error + ModelData list" where
  "resolveDefinition blockStateDefinition props =
     (if variants blockStateDefinition = None \<and> multipart blockStateDefinition = None
      then Inr []
      else
        (case (case variants blockStateDefinition of
                 None \<Rightarrow> Inr []
               | Some vs \<Rightarrow> resolveVariants vs props) of
           Inl e \<Rightarrow> Inl e
         | Inr models \<Rightarrow>
            (case multipart blockStateDefinition of
               None \<Rightarrow> Inr models
             | Some parts \<Rightarrow> resolveMultipart parts props models)))"

definition resolveBlockModel ::
  "(string \<rightharpoonup> BlockStateDefinition) \<Rightarrow> (string \<Rightarrow> BlockStateDefinition json_file option)
     \<Rightarrow> Block \<Rightarrow> (js_error + ModelData list) \<times> (string \<rightharpoonup> BlockStateDefinition)" where
  "resolveBlockModel blockStateCache store block =
     (if name block \<in> set liquidNames
      then (Inr (createLiquidModelData block), blockStateCache)
      else
        (let blockName = replace_first ''minecraft:'' (name block)
         in case getBlockState blockStateCache store blockName of
              (blockStateDefinition, cache') \<Rightarrow>
                (resolveDefinition blockStateDefinition (properties block), cache')))"

section \<open>AssetLoader: models and texture references\<close>

text \<open>
  A model's texture table is read by key only, so it is a map; merging two tables with the
  spread syntax \<^verbatim>\<open>{...a, ...b}\<close> or \<^verbatim>\<open>Object.assign(a, b)\<close> is \<open>a ++ b\<close>, the entries of
  \<open>b\<close> winning. Coordinates are rationals. \<^verbatim>\<open>display\<close> is opaque.
\<close>

record Face =
  texture :: string
  cullface :: "string option"
  face_rotation :: "int option"
  tintindex :: "int option"
  face_uv :: "(rat \<times> rat \<times> rat \<times> rat) option"

record BlockModelElement =
  elem_from :: "rat \<times> rat \<times> rat"
  elem_to :: "rat \<times> rat \<times> rat"
  elem_rotation :: "((rat \<times> rat \<times> rat) \<times> string \<times> rat \<times> bool option) option"
  faces :: "(string \<times> Face) list"

record BlockModel =
  parent :: "string option"
  textures :: "(string \<rightharpoonup> string) option"
  elements :: "BlockModelElement list option"
  display :: "string option"

definition emptyModel :: BlockModel where
  "emptyModel = \<lparr> parent = None, textures = None, elements = None, display = None \<rparr>"

definition texturesOf :: "BlockModel \<Rightarrow> (string \<rightharpoonup> string)" where
  "texturesOf m = (case textures m of None \<Rightarrow> Map.empty | Some t \<Rightarrow> t)"

subsection \<open>Parent chains\<close>

text \<open>
  One pass of the loop body in \<^verbatim>\<open>loadAndMergeModel\<close>: the object literal spreads the
  parent, then the current model, then sets \<^verbatim>\<open>textures\<close> and \<^verbatim>\<open>elements\<close>.
\<close>

definition mergeParent :: "BlockModel \<Rightarrow> BlockModel \<Rightarrow> BlockModel" where
  "mergeParent parentModel currentModel =
     \<lparr> parent = (case parent currentModel of Some p \<Rightarrow> Some p | None \<Rightarrow> parent parentModel),
       textures = Some (texturesOf parentModel ++ texturesOf currentModel),
       elements = (case elements currentModel of Some e \<Rightarrow> Some e
                   | None \<Rightarrow> elements parentModel),
       display = (case display currentModel of Some d \<Rightarrow> Some d
                  | None \<Rightarrow> display parentModel) \<rparr>"

definition MAX_DEPTH :: nat where
  "MAX_DEPTH = 5"

function mergeLoop ::
  "(string \<Rightarrow> BlockModel json_file option) \<Rightarrow> BlockModel \<Rightarrow> string \<Rightarrow> nat \<Rightarrow> BlockModel" where
  "mergeLoop store currentModel parentPath depth =
     (if parentPath \<noteq> [] \<and> depth < MAX_DEPTH then
        (case store (''models/'' @ replace_first ''minecraft:'' parentPath @ ''.json'') of
           None \<Rightarrow> currentModel
         | Some Malformed \<Rightarrow> currentModel
         | Some (Parsed parentModel) \<Rightarrow>
             mergeLoop store (mergeParent parentModel currentModel)
               (case parent parentModel of None \<Rightarrow> [] | Some p \<Rightarrow> p) (depth + 1))
      else currentModel)"
  by pat_completeness auto
termination
  by (relation "measure (\<lambda>(store, currentModel, parentPath, depth). MAX_DEPTH - depth)") auto

declare mergeLoop.simps [simp del]

definition loadAndMergeModel ::
  "(string \<Rightarrow> BlockModel json_file option) \<Rightarrow> BlockModel \<Rightarrow> BlockModel" where
  "loadAndMergeModel store m =
     (case parent m of
        None \<Rightarrow> m
      | Some p \<Rightarrow>
          if p = [] then m
          else (mergeLoop store m p 0) \<lparr> parent := None \<rparr>)"

subsection \<open>Texture references\<close>

definition missing_texture :: string where
  "missing_texture = ''block/missing_texture''"

text \<open>
  The loop of \<^verbatim>\<open>resolveTexture\<close>. \<open>Inl\<close> is the early \<^verbatim>\<open>return\<close> inside the loop, \<open>Inr\<close>
  the values of \<^verbatim>\<open>ref\<close> and \<^verbatim>\<open>depth\<close> when the loop is left. An entry that is the empty
  string is falsy, so \<^verbatim>\<open>model.textures[key] || ref\<close> keeps \<^verbatim>\<open>ref\<close> for it.
\<close>

function textureLoop ::
  "(string \<rightharpoonup> string) option \<Rightarrow> string \<Rightarrow> nat \<Rightarrow> string + (string \<times> nat)" where
  "textureLoop table ref depth =
     (if startsWith ref ''#'' \<and> depth < MAX_DEPTH then
        (case table of
           None \<Rightarrow> Inl missing_texture
         | Some t \<Rightarrow>
            textureLoop table
              (case t (drop 1 ref) of
                 None \<Rightarrow> ref
               | Some v \<Rightarrow> if v = [] then ref else v)
              (depth + 1))
      else Inr (ref, depth))"
  by pat_completeness auto
termination
  by (relation "measure (\<lambda>(table, ref, depth). MAX_DEPTH - depth)") auto

declare textureLoop.simps [simp del]

definition resolveTexture :: "string \<Rightarrow> BlockModel \<Rightarrow> string" where
  "resolveTexture textureRef m =
     (if textureRef = [] \<or> textureRef = ''#missing'' then missing_texture
      else if \<not> startsWith textureRef ''#'' then replace_first ''minecraft:'' textureRef
      else
        (case textureLoop (textures m) textureRef 0 of
           Inl early \<Rightarrow> early
         | Inr (ref, depth) \<Rightarrow>
             if depth \<ge> MAX_DEPTH \<or> startsWith ref ''#'' then missing_texture
             else replace_first ''minecraft:'' ref))"

subsection \<open>Liquid models\<close>









section \<open>BlockMeshBuilder: face UVs\<close>

text \<open>
  Degrees are integers in the model. \<^verbatim>\<open>%\<close> is the remainder of the truncating division,
  with the sign of the dividend; \<^verbatim>\<open>Math.round\<close> rounds to the nearest integer, a tie going
  up. The eight numbers of \<^verbatim>\<open>uvCoords\<close> are four corners in the order top-left, top-right,
  bottom-left, bottom-right.
\<close>

record Transform =
  transform_x :: "int option"
  transform_y :: "int option"
  transform_uvlock :: "bool option"

definition js_rem :: "int \<Rightarrow> int \<Rightarrow> int" where
  "js_rem a b = sgn a * (\<bar>a\<bar> mod \<bar>b\<bar>)"

definition Math_round :: "rat \<Rightarrow> int" where
  "Math_round q = \<lfloor>q + 1 / 2\<rfloor>"

definition orZero :: "int option \<Rightarrow> int" where
  "orZero v = (case v of None \<Rightarrow> 0 | Some n \<Rightarrow> n)"

fun applyUVRotation :: "'a \<times> 'a \<times> 'a \<times> 'a \<Rightarrow> int \<Rightarrow> 'a \<times> 'a \<times> 'a \<times> 'a" where
  "applyUVRotation (TL, TR, BL, BR) rotation =
     (if rotation = 0 then (TL, TR, BL, BR)
      else if rotation = 90 then (BL, TL, BR, TR)
      else if rotation = 180 then (BR, BL, TR, TL)
      else if rotation = 270 then (TR, BR, TL, BL)
      else (TL, TR, BL, BR))"

definition blockRotation :: "string \<Rightarrow> Transform \<Rightarrow> int" where
  "blockRotation direction transform =
     (if transform_uvlock transform \<noteq> Some True then
        (let yRot = orZero (transform_y transform);
             xRot = orZero (transform_x transform)
         in if direction = ''up'' then yRot
            else if direction = ''down'' then - yRot
            else if direction = ''north'' then yRot
            else if direction = ''south'' then - yRot
            else if direction = ''east'' then yRot
            else if direction = ''west'' then - yRot
            else 0)
      else 0)"

definition totalRotation :: "string \<Rightarrow> Face \<Rightarrow> Transform \<Rightarrow> int" where
  "totalRotation direction faceData transform =
     js_rem (js_rem (orZero (face_rotation faceData) + blockRotation direction transform) 360
             + 360) 360"

definition faceUVCorners :: "Face \<Rightarrow> (rat \<times> rat) \<times> (rat \<times> rat) \<times> (rat \<times> rat) \<times> (rat \<times> rat)" where
  "faceUVCorners faceData =
     (case (case face_uv faceData of None \<Rightarrow> (0, 0, 16, 16) | Some r \<Rightarrow> r) of
        (uMinPx, vMinPx, uMaxPx, vMaxPx) \<Rightarrow>
          (let u1 = uMinPx / 16; v1 = vMinPx / 16; u2 = uMaxPx / 16; v2 = vMaxPx / 16
           in ((u1, 1 - v1), (u2, 1 - v1), (u1, 1 - v2), (u2, 1 - v2))))"

definition mapUVCoordinates ::
  "string \<Rightarrow> Face \<Rightarrow> Transform \<Rightarrow> (rat \<times> rat) \<times> (rat \<times> rat) \<times> (rat \<times> rat) \<times> (rat \<times> rat)" where
  "mapUVCoordinates direction faceData transform =
     (let uvCoords = faceUVCorners faceData;
          total = totalRotation direction faceData transform
      in if total \<noteq> 0
         then applyUVRotation uvCoords (Math_round (of_int total / 90) * 90)
         else uvCoords)"

section \<open>AtlasBuilder\<close>

text \<open>
  Sizes and offsets are natural numbers. A node of the packing tree is either unused, or used
  with its two children, which \<^verbatim>\<open>splitNode\<close> creates together with setting \<^verbatim>\<open>used\<close>.
  \<^verbatim>\<open>findNode\<close> returns a reference into the tree, here the path from the root to the node,
  and \<^verbatim>\<open>splitNode\<close> mutates the node behind that reference.
\<close>

record TextureInfo =
  path :: string
  width :: nat
  height :: nat
  area :: nat

record PackedTexture = TextureInfo +
  tex_x :: nat
  tex_y :: nat

record UVRect =
  uv_u :: rat
  uv_v :: rat
  uv_width :: rat
  uv_height :: rat

datatype AtlasNode =
  Unused nat nat nat nat
| Used nat nat nat nat AtlasNode AtlasNode

datatype branch = Right | Down

fun findNode :: "AtlasNode \<Rightarrow> nat \<Rightarrow> nat \<Rightarrow> branch list option" where
  "findNode (Used nx ny nw nh right down) w h =
     (case findNode right w h of
        Some p \<Rightarrow> Some (Right # p)
      | None \<Rightarrow>
         (case findNode down w h of
            Some p \<Rightarrow> Some (Down # p)
          | None \<Rightarrow> None))"
| "findNode (Unused nx ny nw nh) w h =
     (if w \<le> nw \<and> h \<le> nh then Some [] else None)"

fun splitNode :: "AtlasNode \<Rightarrow> nat \<Rightarrow> nat \<Rightarrow> AtlasNode" where
  "splitNode (Unused nx ny nw nh) w h =
     Used nx ny nw nh (Unused (nx + w) ny (nw - w) h) (Unused nx (ny + h) nw (nh - h))"
| "splitNode (Used nx ny nw nh right down) w h =
     Used nx ny nw nh (Unused (nx + w) ny (nw - w) h) (Unused nx (ny + h) nw (nh - h))"

fun nodeAt :: "AtlasNode \<Rightarrow> branch list \<Rightarrow> AtlasNode" where
  "nodeAt n [] = n"
| "nodeAt (Used nx ny nw nh right down) (Right # p) = nodeAt right p"
| "nodeAt (Used nx ny nw nh right down) (Down # p) = nodeAt down p"
| "nodeAt (Unused nx ny nw nh) (b # p) = Unused nx ny nw nh"

fun splitNodeAt :: "AtlasNode \<Rightarrow> branch list \<Rightarrow> nat \<Rightarrow> nat \<Rightarrow> AtlasNode" where
  "splitNodeAt n [] w h = splitNode n w h"
| "splitNodeAt (Used nx ny nw nh right down) (Right # p) w h =
     Used nx ny nw nh (splitNodeAt right p w h) down"
| "splitNodeAt (Used nx ny nw nh right down) (Down # p) w h =
     Used nx ny nw nh right (splitNodeAt down p w h)"
| "splitNodeAt (Unused nx ny nw nh) (b # p) w h = Unused nx ny nw nh"

fun node_x :: "AtlasNode \<Rightarrow> nat" where
  "node_x (Unused nx ny nw nh) = nx"
| "node_x (Used nx ny nw nh right down) = nx"

fun node_y :: "AtlasNode \<Rightarrow> nat" where
  "node_y (Unused nx ny nw nh) = ny"
| "node_y (Used nx ny nw nh right down) = ny"

definition place :: "TextureInfo \<Rightarrow> nat \<Rightarrow> nat \<Rightarrow> PackedTexture" where
  "place t fx fy =
     \<lparr> path = path t, width = width t, height = height t, area = area t,
       tex_x = fx, tex_y = fy \<rparr>"

fun packLoop ::
  "nat \<Rightarrow> AtlasNode \<Rightarrow> TextureInfo list \<Rightarrow> PackedTexture list \<Rightarrow> PackedTexture list" where
  "packLoop padding tree [] packedTextures = packedTextures"
| "packLoop padding tree (t # ts) packedTextures =
     (case findNode tree (width t + padding) (height t + padding) of
        Some p \<Rightarrow>
          packLoop padding
            (splitNodeAt tree p (width t + padding) (height t + padding)) ts
            (packedTextures @ [place t (node_x (nodeAt tree p)) (node_y (nodeAt tree p))])
      | None \<Rightarrow> packLoop padding tree ts packedTextures)"

definition packTextures :: "nat \<Rightarrow> nat \<Rightarrow> TextureInfo list \<Rightarrow> PackedTexture list" where
  "packTextures atlasSize padding ts =
     packLoop padding (Unused 0 0 atlasSize atlasSize) ts []"

definition uvRectOf :: "nat \<Rightarrow> PackedTexture \<Rightarrow> UVRect" where
  "uvRectOf atlasSize t =
     \<lparr> uv_u = of_nat (tex_x t) / of_nat atlasSize,
       uv_v = of_nat (tex_y t) / of_nat atlasSize,
       uv_width = of_nat (width t) / of_nat atlasSize,
       uv_height = of_nat (height t) / of_nat atlasSize \<rparr>"

text \<open>
  \<^verbatim>\<open>createAtlasCanvas\<close>: the canvas is the list of images drawn, each at its offset, and the
  map gets one \<^verbatim>\<open>uvMap.set\<close> per packed texture, in order.
\<close>

fun uvMapLoop :: "nat \<Rightarrow> PackedTexture list \<Rightarrow> (string \<rightharpoonup> UVRect) \<Rightarrow> (string \<rightharpoonup> UVRect)" where
  "uvMapLoop atlasSize [] uvMap = uvMap"
| "uvMapLoop atlasSize (t # ts) uvMap =
     uvMapLoop atlasSize ts (uvMap(path t \<mapsto> uvRectOf atlasSize t))"

definition createAtlasCanvas ::
  "nat \<Rightarrow> PackedTexture list \<Rightarrow> PackedTexture list \<times> (string \<rightharpoonup> UVRect)" where
  "createAtlasCanvas atlasSize packedTextures =
     (packedTextures, uvMapLoop atlasSize packedTextures Map.empty)"

text \<open>
  \<^verbatim>\<open>Array.prototype.sort\<close> with a comparator is a stable sort: insertion from the right end
  gives the same list.
\<close>

fun insertBy :: "('a \<Rightarrow> 'a \<Rightarrow> int) \<Rightarrow> 'a \<Rightarrow> 'a list \<Rightarrow> 'a list" where
  "insertBy cmp a [] = [a]"
| "insertBy cmp a (b # bs) = (if cmp a b \<le> 0 then a # b # bs else b # insertBy cmp a bs)"

definition sortBy :: "('a \<Rightarrow> 'a \<Rightarrow> int) \<Rightarrow> 'a list \<Rightarrow> 'a list" where
  "sortBy cmp xs = foldr (insertBy cmp) xs []"

definition sortTexturesForPacking :: "TextureInfo list \<Rightarrow> TextureInfo list list" where
  "sortTexturesForPacking ts =
     [sortBy (\<lambda>a b. if max (width b) (height b) \<noteq> max (width a) (height a)
                     then int (max (width b) (height b)) - int (max (width a) (height a))
                     else int (area b) - int (area a)) ts,
      sortBy (\<lambda>a b. int (area b) - int (area a)) ts,
      sortBy (\<lambda>a b. if height b \<noteq> height a then int (height b) - int (height a)
                     else int (width b) - int (width a)) ts,
      sortBy (\<lambda>a b. if width b \<noteq> width a then int (width b) - int (width a)
                     else int (height b) - int (height a)) ts,
      sortBy (\<lambda>a b. int (width b + height b) - int (width a + height a)) ts]"

definition calculatePackingEfficiency :: "nat \<Rightarrow> PackedTexture list \<Rightarrow> rat" where
  "calculatePackingEfficiency atlasSize packedTextures =
     of_nat (foldl (\<lambda>s t. s + area t) 0 packedTextures) / of_nat (atlasSize * atlasSize) * 100"

fun reduceBest :: "nat \<Rightarrow> PackedTexture list \<Rightarrow> PackedTexture list list \<Rightarrow> PackedTexture list" where
  "reduceBest atlasSize best [] = best"
| "reduceBest atlasSize best (current # rest) =
     reduceBest atlasSize
       (if calculatePackingEfficiency atlasSize current > calculatePackingEfficiency atlasSize best
        then current else best) rest"

record AtlasResult =
  atlas :: "PackedTexture list"
  uvMap :: "string \<rightharpoonup> UVRect"
  packingEfficiency :: rat
  fromCache :: bool

definition buildNewAtlas :: "nat \<Rightarrow> nat \<Rightarrow> (string \<times> nat \<times> nat) list \<Rightarrow> AtlasResult" where
  "buildNewAtlas atlasSize padding images =
     (let textureInfos = map (\<lambda>(p, w, h). \<lparr> path = p, width = w, height = h, area = w * h \<rparr>) images;
          packingResults = map (packTextures atlasSize padding) (sortTexturesForPacking textureInfos);
          bestResult = (case packingResults of [] \<Rightarrow> [] | r # rs \<Rightarrow> reduceBest atlasSize r rs)
      in case createAtlasCanvas atlasSize bestResult of
           (canvas, uvs) \<Rightarrow>
             \<lparr> atlas = canvas, uvMap = uvs,
               packingEfficiency = calculatePackingEfficiency atlasSize bestResult,
               fromCache = False \<rparr>)"

text \<open>
  \<^verbatim>\<open>buildAtlas\<close>. The caches (IndexedDB, local storage, the clock they are checked against)
  are outside the program: \<open>loadFromCache\<close> is what the lookup returns for a key and an
  expected texture count. A key that is absent or the empty string is falsy.
\<close>

definition buildAtlas ::
  "nat \<Rightarrow> nat \<Rightarrow> (string \<Rightarrow> nat \<Rightarrow> AtlasResult option) \<Rightarrow> (string \<times> nat \<times> nat) list
     \<Rightarrow> string option \<Rightarrow> js_error + AtlasResult" where
  "buildAtlas atlasSize padding loadFromCache images cacheKey =
     (case (case cacheKey of
              None \<Rightarrow> None
            | Some k \<Rightarrow> if k = [] then None else loadFromCache k (length images)) of
        Some cachedResult \<Rightarrow> Inr (cachedResult \<lparr> fromCache := True \<rparr>)
      | None \<Rightarrow>
          if length images = 0
          then Inl (Error ''No cache found and no textures provided'')
          else Inr (buildNewAtlas atlasSize padding images))"

section \<open>Cubane: the block mesh pipeline\<close>

text \<open>
  Scene objects are kept by shape only. \<open>getEntityMesh\<close> stands for the entity renderer with
  its own fallback, \<open>buildPart\<close> for loading one model and building its mesh, which may
  throw; the block is the result of \<^verbatim>\<open>parseBlockString\<close> and \<open>cacheKey\<close> is the block
  string with the biome. A hybrid part is its entity type, its offset and rotation being
  left out, and so are the writes to the mesh cache: only the returned object is modelled.
\<close>

datatype Object3D =
  FallbackMesh string
| EntityMesh string
| BlockPart ModelData
| Group string "Object3D list"

record Cubane =
  blockMeshCache :: "string \<rightharpoonup> Object3D"
  pureBlockEntityMap :: "string \<rightharpoonup> string"
  hybridBlockConfig :: "string \<rightharpoonup> string list"

definition createFallbackMesh :: "string \<Rightarrow> Object3D" where
  "createFallbackMesh n = FallbackMesh n"

fun staticParts :: "(ModelData \<Rightarrow> js_error + Object3D) \<Rightarrow> ModelData list \<Rightarrow> Object3D list" where
  "staticParts buildPart [] = []"
| "staticParts buildPart (modelData # rest) =
     (case buildPart modelData of
        Inl modelError \<Rightarrow> staticParts buildPart rest
      | Inr part \<Rightarrow> part # staticParts buildPart rest)"

definition getBlockMesh ::
  "Cubane \<Rightarrow> (string \<Rightarrow> Object3D) \<Rightarrow> (ModelData \<Rightarrow> js_error + Object3D)
     \<Rightarrow> (Block \<Rightarrow> js_error + ModelData list) \<Rightarrow> string \<Rightarrow> bool \<Rightarrow> Block \<Rightarrow> Object3D" where
  "getBlockMesh cubane getEntityMesh buildPart resolve cacheKey useCache block =
     (case (if useCache then blockMeshCache cubane cacheKey else None) of
        Some cachedMesh \<Rightarrow> cachedMesh
      | None \<Rightarrow>
         (let blockId = namespace block @ '':'' @ name block
          in case (case pureBlockEntityMap cubane blockId of
                     None \<Rightarrow> None
                   | Some entityType \<Rightarrow> if entityType = [] then None else Some entityType) of
               Some entityType \<Rightarrow> getEntityMesh entityType
             | None \<Rightarrow>
                (let static = (case resolve block of
                                 Inl error \<Rightarrow> []
                               | Inr modelDataList \<Rightarrow> staticParts buildPart modelDataList);
                     dynamic = (case hybridBlockConfig cubane blockId of
                                  None \<Rightarrow> []
                                | Some dynamicPartsConfig \<Rightarrow> map getEntityMesh dynamicPartsConfig);
                     children = static @ dynamic
                 in if children = []
                    then createFallbackMesh (''block_fallback_'' @ blockId)
                    else Group (''block_'' @ replace_first ''minecraft:'' (name block)) children)))"

section \<open>The specification's descriptions\<close>

text \<open>
  These definitions follow the wording of the specification, not the code; the properties
  below compare them with the functions above.
\<close>

subsection \<open>Parent merge\<close>

text \<open>
  The parents of a model are loaded one after the other, at most \<open>hops\<close> of them; the chain
  ends at a model without parent and at a file that is missing or unparseable. The path of
  a parent file is formed as the loader forms it. In the merged model every texture entry
  and the elements come from the first model that has them, the child first, then the
  parents from the nearest on, and there is no parent reference.
\<close>

fun spec_parentChain ::
  "(string \<Rightarrow> BlockModel json_file option) \<Rightarrow> string \<Rightarrow> nat \<Rightarrow> BlockModel list" where
  "spec_parentChain store parentPath 0 = []"
| "spec_parentChain store parentPath (Suc hops) =
     (if parentPath = [] then []
      else (case store (''models/'' @ replace_first ''minecraft:'' parentPath @ ''.json'') of
              Some (Parsed parentModel) \<Rightarrow>
                parentModel #
                spec_parentChain store
                  (case parent parentModel of None \<Rightarrow> [] | Some p \<Rightarrow> p) hops
            | Some Malformed \<Rightarrow> []
            | None \<Rightarrow> []))"

fun firstPresent :: "'a option list \<Rightarrow> 'a option" where
  "firstPresent [] = None"
| "firstPresent (Some v # rest) = Some v"
| "firstPresent (None # rest) = firstPresent rest"

definition spec_mergedModel :: "BlockModel \<Rightarrow> BlockModel list \<Rightarrow> BlockModel" where
  "spec_mergedModel child chain =
     \<lparr> parent = None,
       textures = (if chain = [] then textures child
                   else Some (\<lambda>key. firstPresent (map (\<lambda>m. texturesOf m key) (child # chain)))),
       elements = firstPresent (map elements (child # chain)),
       display = firstPresent (map display (child # chain)) \<rparr>"

subsection \<open>Face UV rotation\<close>

text \<open>
  The rotation of the blockstate is added on the up, north and east faces and subtracted on
  their opposites; a rotation by a multiple of 90 degrees is that many quarter turns of the
  four corners.
\<close>

definition spec_faceContribution :: "string \<Rightarrow> int \<Rightarrow> int" where
  "spec_faceContribution direction degrees =
     (if direction \<in> {''up'', ''north'', ''east''} then degrees
      else if direction \<in> {''down'', ''south'', ''west''} then - degrees
      else 0)"

definition spec_quarterTurn :: "'a \<times> 'a \<times> 'a \<times> 'a \<Rightarrow> 'a \<times> 'a \<times> 'a \<times> 'a" where
  "spec_quarterTurn corners = (case corners of (TL, TR, BL, BR) \<Rightarrow> (BL, TL, BR, TR))"

subsection \<open>Multipart rules\<close>







subsection \<open>Variant selection\<close>












subsection \<open>Property names and values\<close>


subsection \<open>Pixel regions of the atlas\<close>

text \<open>
  A rectangle of the canvas as the set of its pixels; the pixels of a placed texture, with
  and without the padding reserved around it; the pixels still free in a packing tree, which
  are those of its unused nodes; and the condition that the two children of every used node
  share no free pixel.
\<close>

definition pixels :: "nat \<Rightarrow> nat \<Rightarrow> nat \<Rightarrow> nat \<Rightarrow> (nat \<times> nat) set" where
  "pixels px py w h = {(a, b). px \<le> a \<and> a < px + w \<and> py \<le> b \<and> b < py + h}"

definition texturePixels :: "PackedTexture \<Rightarrow> (nat \<times> nat) set" where
  "texturePixels t = pixels (tex_x t) (tex_y t) (width t) (height t)"

definition paddedPixels :: "nat \<Rightarrow> PackedTexture \<Rightarrow> (nat \<times> nat) set" where
  "paddedPixels padding t = pixels (tex_x t) (tex_y t) (width t + padding) (height t + padding)"

fun freePixels :: "AtlasNode \<Rightarrow> (nat \<times> nat) set" where
  "freePixels (Unused nx ny nw nh) = pixels nx ny nw nh"
| "freePixels (Used nx ny nw nh right down) = freePixels right \<union> freePixels down"

fun childrenDisjoint :: "AtlasNode \<Rightarrow> bool" where
  "childrenDisjoint (Unused nx ny nw nh) = True"
| "childrenDisjoint (Used nx ny nw nh right down) =
     (freePixels right \<inter> freePixels down = {} \<and> childrenDisjoint right \<and> childrenDisjoint down)"

section \<open>Properties\<close>

subsection \<open>The atlas builder called without textures\<close>

text \<open>
  Claim C10. A call of \<^verbatim>\<open>buildAtlas\<close> with an empty texture list is only a cache check:
  when no cache key is given, or the key is empty, or the cache has no entry for the key,
  the promise is rejected with the error "No cache found and no textures provided". No
  empty atlas is returned.
\<close>

theorem buildAtlas_empty_rejects:
  assumes "\<forall>k. cacheKey = Some k \<and> k \<noteq> [] \<longrightarrow> loadFromCache k 0 = None"
  shows "buildAtlas atlasSize padding loadFromCache [] cacheKey
           = Inl (Error ''No cache found and no textures provided'')"
  using assms by (cases cacheKey) (auto simp: buildAtlas_def)

theorem buildAtlas_empty_rejects_witness:
  "buildAtlas 2048 1 (\<lambda>k n. None) [] (Some ''pack-hash'')
     = Inl (Error ''No cache found and no textures provided'')
   \<and> buildAtlas 2048 1 (\<lambda>k n. None) [] None
     = Inl (Error ''No cache found and no textures provided'')"
  using buildAtlas_empty_rejects [of "Some ''pack-hash''" "\<lambda>k n. None" 2048 1]
        buildAtlas_empty_rejects [of None "\<lambda>k n. None" 2048 1]
  by simp

text \<open>With a cache entry the same call succeeds and hands the entry back.\<close>

lemma buildAtlas_empty_cached:
  "k \<noteq> [] \<Longrightarrow> loadFromCache k 0 = Some r \<Longrightarrow>
   buildAtlas atlasSize padding loadFromCache [] (Some k) = Inr (r \<lparr> fromCache := True \<rparr>)"
  by (simp add: buildAtlas_def)

subsection \<open>Liquid blocks and their models\<close>




























subsection \<open>Blocks without a blockstate definition\<close>

lemma getBlockState_missing:
  assumes "blockStateCache (''blockstate:'' @ replace_first ''minecraft:'' blockId) = None"
    and "store (''blockstates/'' @ replace_first ''minecraft:'' blockId @ ''.json'') = None
         \<or> store (''blockstates/'' @ replace_first ''minecraft:'' blockId @ ''.json'') = Some Malformed"
  shows "getBlockState blockStateCache store blockId = (emptyBlockState, blockStateCache)"
  using assms by (auto simp: getBlockState_def Let_def)

lemma resolveDefinition_neither:
  "variants d = None \<Longrightarrow> multipart d = None \<Longrightarrow> resolveDefinition d props = Inr []"
  by (simp add: resolveDefinition_def)

lemma resolveBlockModel_nonliquid:
  "name block \<notin> set liquidNames \<Longrightarrow>
   fst (resolveBlockModel blockStateCache store block)
     = resolveDefinition
         (fst (getBlockState blockStateCache store (replace_first ''minecraft:'' (name block))))
         (properties block)"
  by (cases "getBlockState blockStateCache store (replace_first ''minecraft:'' (name block))")
     (simp add: resolveBlockModel_def)

lemma getBlockMesh_no_parts:
  assumes "useCache \<longrightarrow> blockMeshCache cubane cacheKey = None"
    and "pureBlockEntityMap cubane (namespace block @ '':'' @ name block) = None"
    and "hybridBlockConfig cubane (namespace block @ '':'' @ name block) = None"
    and "resolve block = Inr [] \<or> (\<exists>e. resolve block = Inl e)"
  shows "getBlockMesh cubane getEntityMesh buildPart resolve cacheKey useCache block
           = createFallbackMesh (''block_fallback_'' @ namespace block @ '':'' @ name block)"
  using assms by (auto simp: getBlockMesh_def Let_def)


text \<open>
  Claim C9, as amended. For a block that is not one of the four liquids, when the blockstate
  definition is missing or unparseable (and not cached), or has neither \<^verbatim>\<open>variants\<close> nor
  \<^verbatim>\<open>multipart\<close>, \<^verbatim>\<open>resolveBlockModel\<close> returns the empty list and does not throw. When
  moreover the block has no cached mesh, is not registered as a pure block entity and has no
  hybrid dynamic parts, \<^verbatim>\<open>getBlockMesh\<close> returns the wireframe placeholder
  \<^verbatim>\<open>block_fallback_<namespace>:<name>\<close>; no error reaches the caller.
\<close>

theorem missing_blockstate_fallback:
  fixes block :: Block
    and blockStateCache :: "string \<rightharpoonup> BlockStateDefinition"
    and store :: "string \<Rightarrow> BlockStateDefinition json_file option"
  defines "blockId \<equiv> replace_first ''minecraft:'' (replace_first ''minecraft:'' (name block))"
  defines "d \<equiv> fst (getBlockState blockStateCache store (replace_first ''minecraft:'' (name block)))"
  assumes nonliquid: "name block \<notin> set liquidNames"
    and missing:
      "(blockStateCache (''blockstate:'' @ blockId) = None
          \<and> store (''blockstates/'' @ blockId @ ''.json'') = None)
       \<or> (blockStateCache (''blockstate:'' @ blockId) = None
          \<and> store (''blockstates/'' @ blockId @ ''.json'') = Some Malformed)
       \<or> (variants d = None \<and> multipart d = None)"
  shows "fst (resolveBlockModel blockStateCache store block) = Inr []
       \<and> ((useCache \<longrightarrow> blockMeshCache cubane cacheKey = None)
            \<and> pureBlockEntityMap cubane (namespace block @ '':'' @ name block) = None
            \<and> hybridBlockConfig cubane (namespace block @ '':'' @ name block) = None
          \<longrightarrow> getBlockMesh cubane getEntityMesh buildPart
                (\<lambda>b. fst (resolveBlockModel blockStateCache store b)) cacheKey useCache block
              = createFallbackMesh (''block_fallback_'' @ namespace block @ '':'' @ name block))"
proof -
  have neither: "variants d = None \<and> multipart d = None"
    using missing
  proof (elim disjE conjE)
    assume "blockStateCache (''blockstate:'' @ blockId) = None"
      and "store (''blockstates/'' @ blockId @ ''.json'') = None"
    then have "d = emptyBlockState"
      unfolding d_def blockId_def by (simp add: getBlockState_missing)
    then show ?thesis by (simp add: emptyBlockState_def)
  next
    assume "blockStateCache (''blockstate:'' @ blockId) = None"
      and "store (''blockstates/'' @ blockId @ ''.json'') = Some Malformed"
    then have "d = emptyBlockState"
      unfolding d_def blockId_def by (simp add: getBlockState_missing)
    then show ?thesis by (simp add: emptyBlockState_def)
  qed simp
  have r: "fst (resolveBlockModel blockStateCache store block) = Inr []"
    using nonliquid neither
    by (simp add: resolveBlockModel_nonliquid d_def resolveDefinition_neither)
  show ?thesis
    using r by (simp add: getBlockMesh_no_parts)
qed

theorem missing_blockstate_fallback_witness:
  "name \<lparr> namespace = ''minecraft'', name = ''sponge'', properties = [] \<rparr> \<notin> set liquidNames
   \<and> fst (resolveBlockModel Map.empty (\<lambda>f. None)
            \<lparr> namespace = ''minecraft'', name = ''sponge'', properties = [] \<rparr>) = Inr []
   \<and> getBlockMesh \<lparr> blockMeshCache = Map.empty, pureBlockEntityMap = Map.empty,
                    hybridBlockConfig = Map.empty \<rparr>
        EntityMesh (\<lambda>m. Inr (BlockPart m))
        (\<lambda>b. fst (resolveBlockModel Map.empty (\<lambda>f. None) b)) ''minecraft:sponge:plains'' True
        \<lparr> namespace = ''minecraft'', name = ''sponge'', properties = [] \<rparr>
      = FallbackMesh ''block_fallback_minecraft:sponge''"
proof -
  let ?b = "\<lparr> namespace = ''minecraft'', name = ''sponge'', properties = [] \<rparr>"
  have n: "name ?b \<notin> set liquidNames" by (simp add: liquidNames_def)
  note th = missing_blockstate_fallback [of ?b Map.empty "\<lambda>f. None" True
      "\<lparr> blockMeshCache = Map.empty, pureBlockEntityMap = Map.empty,
         hybridBlockConfig = Map.empty \<rparr>" "''minecraft:sponge:plains''" EntityMesh
      "\<lambda>m. Inr (BlockPart m)", OF n]
  from th n show ?thesis by (simp add: createFallbackMesh_def)
qed


text \<open>
  The claim as it was worded fails in two ways. With no blockstate file at all, a lectern (a
  hybrid block) is rendered as a group holding its entity part and a chest (a pure block
  entity) as its entity mesh, neither being the placeholder; and for water the resolver
  returns the liquid entry, not the empty list.
\<close>

theorem missing_blockstate_counterexample:
  "fst (resolveBlockModel Map.empty (\<lambda>f. None)
          \<lparr> namespace = ''minecraft'', name = ''lectern'', properties = [] \<rparr>) = Inr []
   \<and> getBlockMesh \<lparr> blockMeshCache = Map.empty, pureBlockEntityMap = Map.empty,
                    hybridBlockConfig = [''minecraft:lectern'' \<mapsto> [''lectern_book'']] \<rparr>
        EntityMesh (\<lambda>m. Inr (BlockPart m))
        (\<lambda>b. fst (resolveBlockModel Map.empty (\<lambda>f. None) b)) ''minecraft:lectern:plains'' True
        \<lparr> namespace = ''minecraft'', name = ''lectern'', properties = [] \<rparr>
      = Group ''block_lectern'' [EntityMesh ''lectern_book'']
   \<and> Group ''block_lectern'' [EntityMesh ''lectern_book'']
      \<noteq> createFallbackMesh ''block_fallback_minecraft:lectern''
   \<and> getBlockMesh \<lparr> blockMeshCache = Map.empty,
                    pureBlockEntityMap = [''minecraft:chest'' \<mapsto> ''chest''],
                    hybridBlockConfig = Map.empty \<rparr>
        EntityMesh (\<lambda>m. Inr (BlockPart m))
        (\<lambda>b. fst (resolveBlockModel Map.empty (\<lambda>f. None) b)) ''minecraft:chest:plains'' True
        \<lparr> namespace = ''minecraft'', name = ''chest'', properties = [] \<rparr>
      = EntityMesh ''chest''
   \<and> fst (resolveBlockModel Map.empty (\<lambda>f. None)
          \<lparr> namespace = ''minecraft'', name = ''water'', properties = [] \<rparr>)
      = Inr [\<lparr> md_model = ''block/water'', md_x = Some 0, md_y = Some 0,
                md_uvlock = Some False \<rparr>]"
  by (simp add: resolveBlockModel_def liquidNames_def getBlockState_def Let_def
      emptyBlockState_def resolveDefinition_def getBlockMesh_def createLiquidModelData_def
      liquidModelPath_def liquidLevel_def startsWith_def createFallbackMesh_def)

subsection \<open>Texture references\<close>

text \<open>
  The parts of the resolution that hold as described: the sentinel for an empty reference and
  for \<^verbatim>\<open>#missing\<close>, a literal going through \<^verbatim>\<open>replace\<close> only, at most five lookups, the
  chain \<^verbatim>\<open>#end\<close>, \<^verbatim>\<open>#side\<close>, \<^verbatim>\<open>block/stone\<close>, and the sentinel for a reference to itself. A
  literal that is only reached by the fifth lookup is answered with the sentinel too, since
  the depth is tested after the loop.
\<close>

lemma resolveTexture_sentinel:
  "resolveTexture [] m = missing_texture"
  "resolveTexture ''#missing'' m = missing_texture"
  by (simp_all add: resolveTexture_def)

lemma resolveTexture_literal:
  "textureRef \<noteq> [] \<Longrightarrow> \<not> startsWith textureRef ''#'' \<Longrightarrow>
   resolveTexture textureRef m = replace_first ''minecraft:'' textureRef"
  by (auto simp: resolveTexture_def startsWith_def)

lemma textureLoop_depth:
  "textureLoop table ref depth = Inr (r, d) \<Longrightarrow> depth \<le> MAX_DEPTH \<Longrightarrow> d \<le> MAX_DEPTH"
proof (induction table ref depth rule: textureLoop.induct)
  case (1 table ref depth)
  show ?case
  proof (cases "startsWith ref ''#'' \<and> depth < MAX_DEPTH")
    case True
    with "1.prems" obtain t where t: "table = Some t"
      by (subst (asm) textureLoop.simps) (auto split: option.splits)
    let ?ref = "case t (drop 1 ref) of None \<Rightarrow> ref | Some v \<Rightarrow> if v = [] then ref else v"
    from True t have "textureLoop table ref depth = textureLoop table ?ref (depth + 1)"
      by (subst textureLoop.simps) simp
    with "1.prems" have "textureLoop table ?ref (depth + 1) = Inr (r, d)" by simp
    moreover from True have "depth + 1 \<le> MAX_DEPTH" by simp
    ultimately show ?thesis using "1.IH" [OF True t] by simp
  next
    case False
    with "1.prems" show ?thesis
      by (subst (asm) textureLoop.simps) auto
  qed
qed

lemma resolveTexture_chain:
  "resolveTexture ''#end''
     \<lparr> parent = None, textures = Some [''end'' \<mapsto> ''#side'', ''side'' \<mapsto> ''block/stone''],
       elements = None, display = None \<rparr> = ''block/stone''"
  by (simp add: resolveTexture_def textureLoop.simps MAX_DEPTH_def startsWith_def)

lemma resolveTexture_self_reference:
  "resolveTexture ''#a''
     \<lparr> parent = None, textures = Some [''a'' \<mapsto> ''#a''], elements = None, display = None \<rparr>
   = missing_texture"
  by (simp add: resolveTexture_def textureLoop.simps MAX_DEPTH_def startsWith_def)

lemma resolveTexture_fifth_hop:
  "resolveTexture ''#a''
     \<lparr> parent = None,
       textures = Some [''a'' \<mapsto> ''#b'', ''b'' \<mapsto> ''#c'', ''c'' \<mapsto> ''#d'', ''d'' \<mapsto> ''#e'',
                        ''e'' \<mapsto> ''block/stone''],
       elements = None, display = None \<rparr>
   = missing_texture"
  by (simp add: resolveTexture_def textureLoop.simps MAX_DEPTH_def startsWith_def)


text \<open>
  Claim C6 says that a literal is returned as it is, with a \<^verbatim>\<open>minecraft:\<close> prefix stripped.
  The code calls \<^verbatim>\<open>replace("minecraft:", "")\<close>, which removes the first occurrence wherever
  it stands: the texture \<^verbatim>\<open>my_minecraft:block/stone\<close> of a namespace \<^verbatim>\<open>my_minecraft\<close>
  comes back as \<^verbatim>\<open>my_block/stone\<close>, directly and as the end of a reference chain. A true
  prefix is stripped as the claim says.
\<close>

theorem resolveTexture_namespace_defect:
  "resolveTexture ''my_minecraft:block/stone'' emptyModel = ''my_block/stone''
   \<and> resolveTexture ''#side''
        \<lparr> parent = None, textures = Some [''side'' \<mapsto> ''my_minecraft:block/stone''],
          elements = None, display = None \<rparr> = ''my_block/stone''
   \<and> resolveTexture ''minecraft:block/stone'' emptyModel = ''block/stone''"
  by (simp add: resolveTexture_def textureLoop.simps MAX_DEPTH_def startsWith_def)

subsection \<open>Parent chains\<close>

lemma mergeLoop_fold:
  "mergeLoop store currentModel parentPath depth
     = foldl (\<lambda>c pm. mergeParent pm c) currentModel
         (spec_parentChain store parentPath (MAX_DEPTH - depth))"
proof (induction store currentModel parentPath depth rule: mergeLoop.induct)
  case (1 store currentModel parentPath depth)
  show ?case
  proof (cases "parentPath \<noteq> [] \<and> depth < MAX_DEPTH")
    case True
    then have s: "MAX_DEPTH - depth = Suc (MAX_DEPTH - (depth + 1))" by arith
    show ?thesis
    proof (cases "store (''models/'' @ replace_first ''minecraft:'' parentPath @ ''.json'')")
      case None
      with True show ?thesis
        by (subst mergeLoop.simps) (simp add: s)
    next
      case (Some f)
      show ?thesis
      proof (cases f)
        case Malformed
        with True Some show ?thesis
          by (subst mergeLoop.simps) (simp add: s)
      next
        case (Parsed pm)
        with True Some "1.IH" [OF True Some Parsed] show ?thesis
          by (subst mergeLoop.simps) (simp add: s)
      qed
    qed
  next
    case False
    then have "spec_parentChain store parentPath (MAX_DEPTH - depth) = []"
      by (cases "MAX_DEPTH - depth") auto
    with False show ?thesis
      by (subst mergeLoop.simps) auto
  qed
qed

lemma spec_parentChain_length: "length (spec_parentChain store p hops) \<le> hops"
  by (induction store p hops rule: spec_parentChain.induct)
     (auto split: option.splits json_file.splits)

lemma firstPresent_two:
  "firstPresent ((case a of Some v \<Rightarrow> Some v | None \<Rightarrow> b) # rest) = firstPresent (a # b # rest)"
  by (cases a; cases b) auto

lemma texturesOf_mergeParent:
  "texturesOf (mergeParent pm c) key
     = (case texturesOf c key of Some v \<Rightarrow> Some v | None \<Rightarrow> texturesOf pm key)"
  by (simp add: mergeParent_def texturesOf_def map_add_def split: option.splits)

lemma fold_textures:
  "texturesOf (foldl (\<lambda>c pm. mergeParent pm c) cur chain) key
     = firstPresent (map (\<lambda>m. texturesOf m key) (cur # chain))"
proof (induction chain arbitrary: cur)
  case Nil
  show ?case by (cases "texturesOf cur key") auto
next
  case (Cons pm chain)
  show ?case
    by (simp add: Cons.IH texturesOf_mergeParent firstPresent_two)
qed

lemma fold_textures_Some:
  "chain \<noteq> [] \<Longrightarrow> textures (foldl (\<lambda>c pm. mergeParent pm c) cur chain) \<noteq> None"
proof (induction chain arbitrary: cur)
  case Nil
  then show ?case by simp
next
  case (Cons pm chain)
  show ?case
  proof (cases "chain = []")
    case True
    then show ?thesis by (simp add: mergeParent_def)
  next
    case False
    with Cons.IH show ?thesis by simp
  qed
qed

lemma fold_elements:
  "elements (foldl (\<lambda>c pm. mergeParent pm c) cur chain)
     = firstPresent (map elements (cur # chain))"
proof (induction chain arbitrary: cur)
  case Nil
  show ?case by (cases "elements cur") auto
next
  case (Cons pm chain)
  have "elements (mergeParent pm cur)
          = (case elements cur of Some e \<Rightarrow> Some e | None \<Rightarrow> elements pm)"
    by (simp add: mergeParent_def)
  then show ?case
    by (simp add: Cons.IH firstPresent_two)
qed

lemma fold_display:
  "display (foldl (\<lambda>c pm. mergeParent pm c) cur chain)
     = firstPresent (map display (cur # chain))"
proof (induction chain arbitrary: cur)
  case Nil
  show ?case by (cases "display cur") auto
next
  case (Cons pm chain)
  have "display (mergeParent pm cur)
          = (case display cur of Some e \<Rightarrow> Some e | None \<Rightarrow> display pm)"
    by (simp add: mergeParent_def)
  then show ?case
    by (simp add: Cons.IH firstPresent_two)
qed


text \<open>
  Claim C3. For a model that declares a parent (a non-empty path), the loader merges the
  chain of parents, at most five of them: every texture entry comes from the child if the
  child has it and otherwise from the nearest parent that has it, the elements are the
  child's if present and otherwise inherited, and the result has no parent. A parent file
  that is missing or unparseable ends the chain, the merge keeps what was resolved up to
  there, and nothing is thrown; when the first parent file is missing the result is the
  child without its parent reference. The example of the claim is the witness: the child
  with \<open>top = A\<close> over a parent with \<open>top = B\<close>, \<open>side = C\<close> and one element gives
  \<open>top = A\<close>, \<open>side = C\<close>, that element, and no parent.
\<close>

theorem loadAndMergeModel_spec:
  assumes "parent m = Some p" and "p \<noteq> []"
  shows "loadAndMergeModel store m = spec_mergedModel m (spec_parentChain store p 5)
       \<and> parent (loadAndMergeModel store m) = None
       \<and> length (spec_parentChain store p 5) \<le> 5
       \<and> (store (''models/'' @ replace_first ''minecraft:'' p @ ''.json'') = None
            \<longrightarrow> loadAndMergeModel store m = m \<lparr> parent := None \<rparr>)"
proof -
  let ?chain = "spec_parentChain store p 5"
  let ?r = "foldl (\<lambda>c pm. mergeParent pm c) m ?chain"
  have l: "loadAndMergeModel store m = ?r \<lparr> parent := None \<rparr>"
    using assms by (simp add: loadAndMergeModel_def mergeLoop_fold MAX_DEPTH_def)
  have t: "textures ?r = (if ?chain = [] then textures m
             else Some (\<lambda>key. firstPresent (map (\<lambda>a. texturesOf a key) (m # ?chain))))"
  proof (cases "?chain = []")
    case True
    then show ?thesis by simp
  next
    case False
    then obtain t where t: "textures ?r = Some t"
      using fold_textures_Some [of ?chain m] by auto
    have "t key = firstPresent (map (\<lambda>a. texturesOf a key) (m # ?chain))" for key
      using fold_textures [of m ?chain key] t by (simp add: texturesOf_def)
    then have "t = (\<lambda>key. firstPresent (map (\<lambda>a. texturesOf a key) (m # ?chain)))"
      by (rule ext)
    with t False show ?thesis by simp
  qed
  have "?r \<lparr> parent := None \<rparr> = spec_mergedModel m ?chain"
    unfolding spec_mergedModel_def
    by (rule BlockModel.equality) (simp_all add: t fold_elements fold_display)
  with l have e: "loadAndMergeModel store m = spec_mergedModel m ?chain" by simp
  have "loadAndMergeModel store m = m \<lparr> parent := None \<rparr>"
    if "store (''models/'' @ replace_first ''minecraft:'' p @ ''.json'') = None"
  proof -
    from that assms have "?chain = []" by (simp add: eval_nat_numeral)
    with l show ?thesis by simp
  qed
  with e show ?thesis
    by (simp add: spec_parentChain_length spec_mergedModel_def)
qed

theorem loadAndMergeModel_spec_witness:
  "parent \<lparr> parent = Some ''block/cube'', textures = Some [''top'' \<mapsto> ''A''],
            elements = None, display = None \<rparr> = Some ''block/cube''
   \<and> ''block/cube'' \<noteq> []
   \<and> loadAndMergeModel
        (\<lambda>f. if f = ''models/block/cube.json''
             then Some (Parsed \<lparr> parent = None,
                                 textures = Some [''top'' \<mapsto> ''B'', ''side'' \<mapsto> ''C''],
                                 elements = Some [\<lparr> elem_from = (0, 0, 0), elem_to = (16, 16, 16),
                                                    elem_rotation = None, faces = [] \<rparr>],
                                 display = None \<rparr>)
             else None)
        \<lparr> parent = Some ''block/cube'', textures = Some [''top'' \<mapsto> ''A''],
          elements = None, display = None \<rparr>
      = \<lparr> parent = None, textures = Some [''top'' \<mapsto> ''A'', ''side'' \<mapsto> ''C''],
          elements = Some [\<lparr> elem_from = (0, 0, 0), elem_to = (16, 16, 16),
                             elem_rotation = None, faces = [] \<rparr>],
          display = None \<rparr>"
proof -
  let ?E = "\<lparr> elem_from = (0, 0, 0), elem_to = (16, 16, 16),
              elem_rotation = None, faces = [] \<rparr> :: BlockModelElement"
  let ?P = "\<lparr> parent = None, textures = Some [''top'' \<mapsto> ''B'', ''side'' \<mapsto> ''C''],
              elements = Some [?E], display = None \<rparr>"
  let ?store = "\<lambda>f. if f = ''models/block/cube.json'' then Some (Parsed ?P) else None"
  let ?child = "\<lparr> parent = Some ''block/cube'', textures = Some [''top'' \<mapsto> ''A''],
                  elements = None, display = None \<rparr>"
  have p: "parent ?child = Some ''block/cube''" by simp
  have n: "''block/cube'' \<noteq> []" by simp
  have chain: "spec_parentChain ?store ''block/cube'' 5 = [?P]"
    by (simp add: eval_nat_numeral startsWith_def)
  have tex: "(\<lambda>key. firstPresent [texturesOf ?child key, texturesOf ?P key])
               = [''top'' \<mapsto> ''A'', ''side'' \<mapsto> ''C'']"
    by (rule ext) (simp add: texturesOf_def)
  from loadAndMergeModel_spec [OF p n, of ?store, THEN conjunct1]
  have "loadAndMergeModel ?store ?child = spec_mergedModel ?child [?P]"
    by (simp only: chain)
  then show ?thesis
    by (simp add: spec_mergedModel_def tex)
qed

subsection \<open>Face UV rotation\<close>

lemma js_rem_normalise: "js_rem (js_rem t 360 + 360) 360 = t mod 360"
proof (cases "t \<ge> 0")
  case True
  then have "js_rem t 360 = t mod 360"
    by (cases "t = 0") (auto simp: js_rem_def)
  moreover have "0 \<le> t mod 360" "t mod 360 < 360" by simp_all
  ultimately show ?thesis
    by (auto simp: js_rem_def sgn_if)
next
  case False
  then have a: "js_rem t 360 = - ((- t) mod 360)"
    by (auto simp: js_rem_def sgn_if)
  have b: "0 \<le> (- t) mod 360" "(- t) mod 360 < 360" by simp_all
  then have "js_rem (- ((- t) mod 360) + 360) 360 = (360 - (- t) mod 360) mod 360"
    by (auto simp: js_rem_def sgn_if)
  also have "\<dots> = t mod 360"
    by (metis add.inverse_inverse diff_minus_eq_add minus_mod_self1 mod_minus_eq mod_mod_trivial
        uminus_add_conv_diff)
  finally show ?thesis using a by simp
qed

lemma Math_round_quarter: "Math_round (of_int t / 90) = (t + 45) div 90"
proof -
  have "(of_int t :: rat) / 90 + 1 / 2 = of_int (t + 45) / of_int 90"
    by (simp add: field_simps)
  then show ?thesis
    unfolding Math_round_def by (simp only: floor_divide_of_int_eq)
qed

lemma blockRotation_spec:
  "blockRotation direction transform
     = (if transform_uvlock transform \<noteq> Some True
        then spec_faceContribution direction (orZero (transform_y transform)) else 0)"
  by (auto simp: blockRotation_def spec_faceContribution_def Let_def)

lemma applyUVRotation_turns:
  "k \<le> 4 \<Longrightarrow> applyUVRotation corners (int k * 90) = (spec_quarterTurn ^^ k) corners"
proof -
  assume "k \<le> 4"
  then consider "k = 0" | "k = 1" | "k = 2" | "k = 3" | "k = 4" by arith
  then show ?thesis
    by cases (cases corners; simp add: spec_quarterTurn_def eval_nat_numeral)+
qed

lemma floor_three_halves: "\<lfloor>3 / 2 :: rat\<rfloor> = 1"
  by (simp add: floor_eq_iff)


text \<open>
  Claim C4, as amended. The rotation applied to a face's UV corners is the face's declared
  rotation plus, unless uvlock is true, the blockstate's \<open>y\<close> rotation, added on the up,
  north and east faces and subtracted on the down, south and west faces; the sum is reduced
  to the range from 0 to 359 and snapped to the nearest multiple of 90 (a tie going up), and
  the corners are turned by that many quarter turns, 360 being a full turn. The blockstate's
  \<open>x\<close> rotation does not enter the sum.
\<close>

theorem uv_rotation_snapped:
  fixes faceData :: Face and transform :: Transform and direction :: string
  defines "rot \<equiv> (orZero (face_rotation faceData)
                      + (if transform_uvlock transform \<noteq> Some True
                         then spec_faceContribution direction (orZero (transform_y transform))
                         else 0)) mod 360"
  defines "snapped \<equiv> ((rot + 45) div 90) * 90"
  shows "totalRotation direction faceData transform = rot
       \<and> 90 dvd snapped \<and> \<bar>snapped - rot\<bar> \<le> 45 \<and> 0 \<le> snapped \<and> snapped \<le> 360
       \<and> mapUVCoordinates direction faceData transform
           = (spec_quarterTurn ^^ nat (snapped div 90)) (faceUVCorners faceData)"
proof -
  have t: "totalRotation direction faceData transform = rot"
    by (simp add: totalRotation_def js_rem_normalise blockRotation_spec rot_def)
  have bounds: "0 \<le> rot" "rot < 360" by (simp_all add: rot_def)
  define k where "k = nat ((rot + 45) div 90)"
  have k: "int k = (rot + 45) div 90" "k \<le> 4"
    using bounds unfolding k_def by auto
  have s: "snapped = int k * 90" by (simp add: snapped_def k)
  have "(rot + 45) div 90 * 90 + (rot + 45) mod 90 = rot + 45"
    by (rule div_mult_mod_eq)
  moreover have "0 \<le> (rot + 45) mod 90" "(rot + 45) mod 90 < 90" by simp_all
  ultimately have b1: "\<bar>snapped - rot\<bar> \<le> 45"
    unfolding snapped_def by linarith
  have b2: "0 \<le> snapped" "snapped \<le> 360"
    using k by (simp_all add: s)
  note b = b1 b2
  have k0: "rot = 0 \<Longrightarrow> k = 0" by (simp add: k_def)
  have "mapUVCoordinates direction faceData transform
          = (spec_quarterTurn ^^ k) (faceUVCorners faceData)"
    by (auto simp: mapUVCoordinates_def Let_def t Math_round_quarter k(1) [symmetric]
        applyUVRotation_turns [OF k(2)] k0)
  moreover have "nat (snapped div 90) = k" by (simp add: s)
  ultimately show ?thesis using t b by (simp add: s)
qed

theorem uv_rotation_snapped_witness:
  "totalRotation ''up''
     \<lparr> texture = ''#all'', cullface = None, face_rotation = None, tintindex = None, face_uv = None \<rparr>
     \<lparr> transform_x = None, transform_y = Some 100, transform_uvlock = Some False \<rparr> = 100
   \<and> mapUVCoordinates ''up''
     \<lparr> texture = ''#all'', cullface = None, face_rotation = None, tintindex = None, face_uv = None \<rparr>
     \<lparr> transform_x = None, transform_y = Some 100, transform_uvlock = Some False \<rparr>
     = ((0, 0), (0, 1), (1, 0), (1, 1))
   \<and> mapUVCoordinates ''down''
     \<lparr> texture = ''#all'', cullface = None, face_rotation = Some 90, tintindex = None, face_uv = None \<rparr>
     \<lparr> transform_x = None, transform_y = Some 180, transform_uvlock = None \<rparr>
     = ((1, 1), (1, 0), (0, 1), (0, 0))"
  using uv_rotation_snapped [where direction = "''up''"
      and faceData = "\<lparr> texture = ''#all'', cullface = None, face_rotation = None,
                        tintindex = None, face_uv = None \<rparr>"
      and transform = "\<lparr> transform_x = None, transform_y = Some 100,
                         transform_uvlock = Some False \<rparr>"]
    uv_rotation_snapped [where direction = "''down''"
      and faceData = "\<lparr> texture = ''#all'', cullface = None, face_rotation = Some 90,
                        tintindex = None, face_uv = None \<rparr>"
      and transform = "\<lparr> transform_x = None, transform_y = Some 180,
                         transform_uvlock = None \<rparr>"]
  by (simp add: spec_faceContribution_def orZero_def faceUVCorners_def spec_quarterTurn_def
      eval_nat_numeral)


text \<open>
  The claim as it was worded has the blockstate's \<open>x\<close> rotation contribute as well. The code
  reads it into \<^verbatim>\<open>xRot\<close> and never uses it: with \<open>x = 90\<close>, no \<open>y\<close> and no uvlock the total
  is 0 on all six faces and the corners stay as they are, while \<open>y = 90\<close> turns the east
  face by a quarter.
\<close>

theorem uv_rotation_counterexample:
  "totalRotation ''up''
     \<lparr> texture = ''#all'', cullface = None, face_rotation = None, tintindex = None, face_uv = None \<rparr>
     \<lparr> transform_x = Some 90, transform_y = None, transform_uvlock = Some False \<rparr> = 0
   \<and> totalRotation ''down''
     \<lparr> texture = ''#all'', cullface = None, face_rotation = None, tintindex = None, face_uv = None \<rparr>
     \<lparr> transform_x = Some 90, transform_y = None, transform_uvlock = Some False \<rparr> = 0
   \<and> totalRotation ''north''
     \<lparr> texture = ''#all'', cullface = None, face_rotation = None, tintindex = None, face_uv = None \<rparr>
     \<lparr> transform_x = Some 90, transform_y = None, transform_uvlock = Some False \<rparr> = 0
   \<and> totalRotation ''south''
     \<lparr> texture = ''#all'', cullface = None, face_rotation = None, tintindex = None, face_uv = None \<rparr>
     \<lparr> transform_x = Some 90, transform_y = None, transform_uvlock = Some False \<rparr> = 0
   \<and> totalRotation ''east''
     \<lparr> texture = ''#all'', cullface = None, face_rotation = None, tintindex = None, face_uv = None \<rparr>
     \<lparr> transform_x = Some 90, transform_y = None, transform_uvlock = Some False \<rparr> = 0
   \<and> totalRotation ''west''
     \<lparr> texture = ''#all'', cullface = None, face_rotation = None, tintindex = None, face_uv = None \<rparr>
     \<lparr> transform_x = Some 90, transform_y = None, transform_uvlock = Some False \<rparr> = 0
   \<and> mapUVCoordinates ''east''
     \<lparr> texture = ''#all'', cullface = None, face_rotation = None, tintindex = None, face_uv = None \<rparr>
     \<lparr> transform_x = Some 90, transform_y = None, transform_uvlock = Some False \<rparr>
     = ((0, 1), (1, 1), (0, 0), (1, 0))
   \<and> mapUVCoordinates ''east''
     \<lparr> texture = ''#all'', cullface = None, face_rotation = None, tintindex = None, face_uv = None \<rparr>
     \<lparr> transform_x = None, transform_y = Some 90, transform_uvlock = Some False \<rparr>
     = ((0, 0), (0, 1), (1, 0), (1, 1))"
  by (simp add: totalRotation_def blockRotation_def js_rem_def orZero_def mapUVCoordinates_def
      faceUVCorners_def Math_round_def Let_def floor_three_halves)

subsection \<open>Multipart rules\<close>













subsection \<open>Variant selection\<close>


















lemma selectVariant_examples:
  "buildVariantKey [''facing=north,half=top'']
     [(''half'', ''top''), (''powered'', ''true''), (''facing'', ''north'')]
     = ''facing=north,half=top''"
  "fst (bestMatchLoop [''facing=south,half=top'', ''facing=north,half=top'',
                       ''facing=north,half=bottom'']
          [(''facing'', ''north'')] ([], - 1)) = ''facing=north,half=top''"
  "fst (bestMatchLoop [''facing=north,shape=a'', ''facing=north,half=top,shape=a'']
          [(''facing'', ''north''), (''half'', ''top'')] ([], - 1))
     = ''facing=north,half=top,shape=a''"
  by code_simp+



subsection \<open>Insensitivity to the order of the properties\<close>























subsection \<open>Atlas packing\<close>

lemma findNode_Unused:
  "findNode t w h = Some p \<Longrightarrow>
   \<exists>nx ny nw nh. nodeAt t p = Unused nx ny nw nh \<and> w \<le> nw \<and> h \<le> nh"
proof (induction t w h arbitrary: p rule: findNode.induct)
  case (1 nx ny nw nh right down w h)
  then show ?case by (auto split: option.splits)
next
  case (2 nx ny nw nh w h)
  then show ?case by (auto split: if_splits)
qed

lemma split_leaf_pixels:
  assumes "w \<le> nw" "h \<le> nh"
  shows "pixels (nx + w) ny (nw - w) h \<union> pixels nx (ny + h) nw (nh - h)
           \<subseteq> pixels nx ny nw nh - pixels nx ny w h"
    and "pixels nx ny w h \<subseteq> pixels nx ny nw nh"
    and "pixels (nx + w) ny (nw - w) h \<inter> pixels nx (ny + h) nw (nh - h) = {}"
  using assms by (auto simp: pixels_def)

lemma splitNodeAt_pixels:
  assumes "findNode t w h = Some p" and "childrenDisjoint t"
  shows "childrenDisjoint (splitNodeAt t p w h)
       \<and> freePixels (splitNodeAt t p w h)
            \<subseteq> freePixels t - pixels (node_x (nodeAt t p)) (node_y (nodeAt t p)) w h
       \<and> pixels (node_x (nodeAt t p)) (node_y (nodeAt t p)) w h \<subseteq> freePixels t"
  using assms
proof (induction t w h arbitrary: p rule: findNode.induct)
  case (1 nx ny nw nh right down w h)
  show ?case
  proof (cases "findNode right w h")
    case (Some q)
    with "1.prems" have p: "p = Right # q" by simp
    from "1.prems" have "childrenDisjoint right" by simp
    from "1.IH"(1) [OF Some this] "1.prems"(2) show ?thesis
      unfolding p by auto
  next
    case None
    with "1.prems" obtain q where q: "findNode down w h = Some q" and p: "p = Down # q"
      by (auto split: option.splits)
    from "1.prems" have "childrenDisjoint down" by simp
    from "1.IH"(2) [OF None q this] "1.prems"(2) show ?thesis
      unfolding p by auto
  qed
next
  case (2 nx ny nw nh w h)
  then have p: "p = []" and fit: "w \<le> nw" "h \<le> nh" by (auto split: if_splits)
  from split_leaf_pixels [OF fit, of nx ny] show ?case
    unfolding p by simp
qed

lemma paddedPixels_place:
  "paddedPixels padding (place t fx fy) = pixels fx fy (width t + padding) (height t + padding)"
  by (simp add: paddedPixels_def place_def)

lemma packLoop_disjoint:
  assumes "childrenDisjoint tree"
    and "\<forall>q \<in> set packed. paddedPixels padding q \<inter> freePixels tree = {}"
    and "sorted_wrt (\<lambda>a b. paddedPixels padding a \<inter> paddedPixels padding b = {}) packed"
    and "\<forall>q \<in> set packed. paddedPixels padding q \<subseteq> canvas"
    and "freePixels tree \<subseteq> canvas"
  shows "sorted_wrt (\<lambda>a b. paddedPixels padding a \<inter> paddedPixels padding b = {})
           (packLoop padding tree ts packed)
       \<and> (\<forall>q \<in> set (packLoop padding tree ts packed). paddedPixels padding q \<subseteq> canvas)"
  using assms
proof (induction ts arbitrary: tree packed)
  case Nil
  then show ?case by simp
next
  case (Cons t ts)
  let ?w = "width t + padding" and ?h = "height t + padding"
  show ?case
  proof (cases "findNode tree ?w ?h")
    case None
    with Cons.IH [OF Cons.prems] show ?thesis by simp
  next
    case (Some p)
    let ?tree = "splitNodeAt tree p ?w ?h"
    let ?q = "place t (node_x (nodeAt tree p)) (node_y (nodeAt tree p))"
    let ?P = "paddedPixels padding ?q"
    from splitNodeAt_pixels [OF Some Cons.prems(1)]
    have wf: "childrenDisjoint ?tree"
      and shrink: "freePixels ?tree \<subseteq> freePixels tree - ?P"
      and inside: "?P \<subseteq> freePixels tree"
      by (simp_all add: paddedPixels_place)
    have a: "\<forall>q \<in> set (packed @ [?q]). paddedPixels padding q \<inter> freePixels ?tree = {}"
      using Cons.prems(2) shrink by auto
    have b: "sorted_wrt (\<lambda>a b. paddedPixels padding a \<inter> paddedPixels padding b = {})
               (packed @ [?q])"
      using Cons.prems(2,3) inside by (auto simp: sorted_wrt_append)
    have c: "\<forall>q \<in> set (packed @ [?q]). paddedPixels padding q \<subseteq> canvas"
      using Cons.prems(4,5) inside by auto
    have d: "freePixels ?tree \<subseteq> canvas"
      using Cons.prems(5) shrink by auto
    from Cons.IH [OF wf a b c d] Some show ?thesis by simp
  qed
qed

lemma packLoop_origin:
  "q \<in> set (packLoop padding tree ts packed) \<Longrightarrow>
   q \<in> set packed \<or> (\<exists>t \<in> set ts. path q = path t \<and> width q = width t
                            \<and> height q = height t \<and> area q = area t)"
proof (induction ts arbitrary: tree packed)
  case Nil
  then show ?case by simp
next
  case (Cons t ts)
  show ?case
  proof (cases "findNode tree (width t + padding) (height t + padding)")
    case None
    with Cons.prems Cons.IH [of tree packed] show ?thesis by auto
  next
    case (Some p)
    with Cons.prems
      Cons.IH [of "splitNodeAt tree p (width t + padding) (height t + padding)"
        "packed @ [place t (node_x (nodeAt tree p)) (node_y (nodeAt tree p))]"]
    show ?thesis by (auto simp: place_def)
  qed
qed

lemma texturePixels_padded: "texturePixels q \<subseteq> paddedPixels padding q"
  by (auto simp: texturePixels_def paddedPixels_def pixels_def)

lemma uvMapLoop_snoc:
  "uvMapLoop atlasSize (ts @ [t]) m = (uvMapLoop atlasSize ts m)(path t \<mapsto> uvRectOf atlasSize t)"
  by (induction ts arbitrary: m) simp_all

lemma uvMapLoop_last:
  assumes "i < length ts"
    and "\<forall>j. i < j \<and> j < length ts \<longrightarrow> path (ts ! j) \<noteq> path (ts ! i)"
  shows "uvMapLoop atlasSize ts m (path (ts ! i)) = Some (uvRectOf atlasSize (ts ! i))"
  using assms
proof (induction ts rule: rev_induct)
  case Nil
  then show ?case by simp
next
  case (snoc t ts)
  show ?case
  proof (cases "i < length ts")
    case True
    then have nth: "(ts @ [t]) ! i = ts ! i" by (simp add: nth_append)
    from True have "i < length ts \<and> length ts < length (ts @ [t])" by simp
    with snoc.prems(2) have "path ((ts @ [t]) ! length ts) \<noteq> path ((ts @ [t]) ! i)"
      by blast
    then have ne: "path t \<noteq> path (ts ! i)" by (simp add: nth)
    have "\<forall>j. i < j \<and> j < length ts \<longrightarrow> path (ts ! j) \<noteq> path (ts ! i)"
    proof (intro allI impI)
      fix j assume j: "i < j \<and> j < length ts"
      then have "i < j \<and> j < length (ts @ [t])" by simp
      with snoc.prems(2) have "path ((ts @ [t]) ! j) \<noteq> path ((ts @ [t]) ! i)" by blast
      with j True show "path (ts ! j) \<noteq> path (ts ! i)" by (simp add: nth_append)
    qed
    with snoc.IH True have "uvMapLoop atlasSize ts m (path (ts ! i))
                              = Some (uvRectOf atlasSize (ts ! i))" by simp
    with ne show ?thesis by (simp add: uvMapLoop_snoc nth)
  next
    case False
    with snoc.prems(1) have "i = length ts" by simp
    then show ?thesis by (simp add: uvMapLoop_snoc)
  qed
qed

lemma uvMapLoop_dom: "dom (uvMapLoop atlasSize ts m) = dom m \<union> path ` set ts"
  by (induction ts arbitrary: m) auto

lemma packLoop_paths_distinct:
  assumes "distinct (map path packed)" and "distinct (map path ts)"
    and "set (map path packed) \<inter> set (map path ts) = {}"
  shows "distinct (map path (packLoop padding tree ts packed))"
  using assms
proof (induction ts arbitrary: tree packed)
  case Nil
  then show ?case by simp
next
  case (Cons t ts)
  show ?case
  proof (cases "findNode tree (width t + padding) (height t + padding)")
    case None
    with Cons.prems Cons.IH [of packed tree] show ?thesis by auto
  next
    case (Some p)
    let ?q = "place t (node_x (nodeAt tree p)) (node_y (nodeAt tree p))"
    have "path ?q = path t" by (simp add: place_def)
    with Cons.prems have "distinct (map path (packed @ [?q]))" "distinct (map path ts)"
      "set (map path (packed @ [?q])) \<inter> set (map path ts) = {}"
      by auto
    from Cons.IH [OF this] Some show ?thesis by simp
  qed
qed

lemma mset_insertBy: "mset (insertBy cmp a bs) = add_mset a (mset bs)"
  by (induction bs) auto

lemma mset_sortBy: "mset (sortBy cmp xs) = mset xs"
  unfolding sortBy_def by (induction xs) (simp_all add: mset_insertBy)

lemma reduceBest_mem: "reduceBest atlasSize best rest \<in> set (best # rest)"
  by (induction rest arbitrary: best) (auto split: if_splits)

lemma buildNewAtlas_packing:
  "\<exists>order. mset order = mset (map (\<lambda>(p, w, h). \<lparr> path = p, width = w, height = h, area = w * h \<rparr>)
                                images)
       \<and> atlas (buildNewAtlas atlasSize padding images) = packTextures atlasSize padding order
       \<and> uvMap (buildNewAtlas atlasSize padding images)
           = snd (createAtlasCanvas atlasSize (packTextures atlasSize padding order))"
proof -
  let ?infos = "map (\<lambda>(p, w, h). \<lparr> path = p, width = w, height = h, area = w * h \<rparr>) images"
  let ?results = "map (packTextures atlasSize padding) (sortTexturesForPacking ?infos)"
  obtain r rs where rs: "?results = r # rs"
    by (simp add: sortTexturesForPacking_def)
  let ?best = "reduceBest atlasSize r rs"
  have "?best \<in> set ?results" unfolding rs by (rule reduceBest_mem)
  then obtain order where o: "order \<in> set (sortTexturesForPacking ?infos)"
    and b: "?best = packTextures atlasSize padding order"
    by auto
  from o have "mset order = mset ?infos"
    by (auto simp: sortTexturesForPacking_def mset_sortBy)
  moreover have "atlas (buildNewAtlas atlasSize padding images) = ?best"
    "uvMap (buildNewAtlas atlasSize padding images) = snd (createAtlasCanvas atlasSize ?best)"
    using rs by (simp_all add: buildNewAtlas_def Let_def createAtlasCanvas_def)
  ultimately show ?thesis using b by auto
qed


text \<open>
  Claim C7. For an atlas of positive size and every list of textures, the packer's result has
  these properties. The UV rectangle recorded for a placed path is the pixel placement
  divided by the atlas size, \<open>(x / atlasSize, y / atlasSize, w / atlasSize, h / atlasSize)\<close>,
  with the width and height of the original image: this holds for every placed texture
  whose path is not placed again later (the map keeps the last entry of a path), so for
  every placed texture when the paths are distinct; the map has exactly the placed paths.
  Every placed texture is one of the input textures with its dimensions. No two placed
  textures share a pixel of the canvas, and every placed texture lies within the canvas.
\<close>

theorem atlas_rects_and_disjointness:
  fixes atlasSize padding :: nat and ts :: "TextureInfo list"
  assumes positive: "0 < atlasSize"
  defines "packed \<equiv> packTextures atlasSize padding ts"
  defines "uvs \<equiv> snd (createAtlasCanvas atlasSize packed)"
  shows "(\<forall>i < length packed.
            (\<forall>j. i < j \<and> j < length packed \<longrightarrow> path (packed ! j) \<noteq> path (packed ! i)) \<longrightarrow>
            uvs (path (packed ! i))
              = Some \<lparr> uv_u = of_nat (tex_x (packed ! i)) / of_nat atlasSize,
                       uv_v = of_nat (tex_y (packed ! i)) / of_nat atlasSize,
                       uv_width = of_nat (width (packed ! i)) / of_nat atlasSize,
                       uv_height = of_nat (height (packed ! i)) / of_nat atlasSize \<rparr>)
       \<and> (distinct (map path ts) \<longrightarrow>
            (\<forall>q \<in> set packed.
               uvs (path q)
                 = Some \<lparr> uv_u = of_nat (tex_x q) / of_nat atlasSize,
                          uv_v = of_nat (tex_y q) / of_nat atlasSize,
                          uv_width = of_nat (width q) / of_nat atlasSize,
                          uv_height = of_nat (height q) / of_nat atlasSize \<rparr>))
       \<and> dom uvs = path ` set packed
       \<and> (\<forall>q \<in> set packed. \<exists>t \<in> set ts. path q = path t \<and> width q = width t
                                             \<and> height q = height t)
       \<and> (\<forall>i j. i < j \<and> j < length packed \<longrightarrow>
              texturePixels (packed ! i) \<inter> texturePixels (packed ! j) = {})
       \<and> (\<forall>q \<in> set packed. texturePixels q \<subseteq> pixels 0 0 atlasSize atlasSize)"
proof -
  have uvs: "uvs = uvMapLoop atlasSize packed Map.empty"
    by (simp add: uvs_def createAtlasCanvas_def)
  have c1: "\<forall>i < length packed.
            (\<forall>j. i < j \<and> j < length packed \<longrightarrow> path (packed ! j) \<noteq> path (packed ! i)) \<longrightarrow>
            uvs (path (packed ! i)) = Some (uvRectOf atlasSize (packed ! i))"
  proof (intro allI impI)
    fix i assume "i < length packed"
      and "\<forall>j. i < j \<and> j < length packed \<longrightarrow> path (packed ! j) \<noteq> path (packed ! i)"
    then show "uvs (path (packed ! i)) = Some (uvRectOf atlasSize (packed ! i))"
      unfolding uvs by (rule uvMapLoop_last)
  qed
  have c2: "\<forall>q \<in> set packed. uvs (path q) = Some (uvRectOf atlasSize q)"
    if d: "distinct (map path ts)"
  proof
    fix q assume "q \<in> set packed"
    then obtain i where i: "i < length packed" "packed ! i = q"
      by (auto simp: in_set_conv_nth)
    have dp: "distinct (map path packed)"
      unfolding packed_def packTextures_def
      using d by (intro packLoop_paths_distinct) simp_all
    have "path (packed ! j) \<noteq> path (packed ! i)" if "i < j \<and> j < length packed" for j
    proof -
      from that i(1) have lt: "j < length (map path packed)" "i < length (map path packed)"
        and ne: "j \<noteq> i" by simp_all
      from nth_eq_iff_index_eq [OF dp lt] ne
      have "map path packed ! j \<noteq> map path packed ! i" by simp
      with that i(1) show ?thesis by simp
    qed
    with c1 i show "uvs (path q) = Some (uvRectOf atlasSize q)" by blast
  qed
  have c3: "dom uvs = path ` set packed"
    unfolding uvs by (simp add: uvMapLoop_dom)
  have c4: "\<forall>q \<in> set packed. \<exists>t \<in> set ts. path q = path t \<and> width q = width t
                                             \<and> height q = height t"
    unfolding packed_def packTextures_def
    using packLoop_origin [of _ padding "Unused 0 0 atlasSize atlasSize" ts "[]"] by auto
  have inv: "sorted_wrt (\<lambda>a b. paddedPixels padding a \<inter> paddedPixels padding b = {}) packed
           \<and> (\<forall>q \<in> set packed. paddedPixels padding q \<subseteq> pixels 0 0 atlasSize atlasSize)"
    unfolding packed_def packTextures_def
    by (rule packLoop_disjoint) simp_all
  have c5: "\<forall>i j. i < j \<and> j < length packed \<longrightarrow>
              texturePixels (packed ! i) \<inter> texturePixels (packed ! j) = {}"
  proof (intro allI impI)
    fix i j assume ij: "i < j \<and> j < length packed"
    with inv have "paddedPixels padding (packed ! i) \<inter> paddedPixels padding (packed ! j) = {}"
      by (simp add: sorted_wrt_iff_nth_less)
    with texturePixels_padded [of "packed ! i" padding] texturePixels_padded [of "packed ! j" padding]
    show "texturePixels (packed ! i) \<inter> texturePixels (packed ! j) = {}" by blast
  qed
  have c6: "\<forall>q \<in> set packed. texturePixels q \<subseteq> pixels 0 0 atlasSize atlasSize"
    using inv texturePixels_padded by blast
  from c1 c2 c3 c4 c5 c6 show ?thesis
    by (simp add: uvRectOf_def)
qed

theorem atlas_rects_and_disjointness_witness:
  "(0 :: nat) < 64
   \<and> packTextures 64 1
        [\<lparr> path = ''block/stone'', width = 16, height = 16, area = 256 \<rparr>,
         \<lparr> path = ''block/dirt'', width = 16, height = 16, area = 256 \<rparr>,
         \<lparr> path = ''block/water_still'', width = 32, height = 16, area = 512 \<rparr>]
      = [\<lparr> path = ''block/stone'', width = 16, height = 16, area = 256, tex_x = 0, tex_y = 0 \<rparr>,
         \<lparr> path = ''block/dirt'', width = 16, height = 16, area = 256, tex_x = 17, tex_y = 0 \<rparr>,
         \<lparr> path = ''block/water_still'', width = 32, height = 16, area = 512,
           tex_x = 0, tex_y = 17 \<rparr>]
   \<and> snd (createAtlasCanvas 64
        (packTextures 64 1
          [\<lparr> path = ''block/stone'', width = 16, height = 16, area = 256 \<rparr>,
           \<lparr> path = ''block/dirt'', width = 16, height = 16, area = 256 \<rparr>,
           \<lparr> path = ''block/water_still'', width = 32, height = 16, area = 512 \<rparr>]))
        ''block/dirt''
      = Some \<lparr> uv_u = 17 / 64, uv_v = 0, uv_width = 1 / 4, uv_height = 1 / 4 \<rparr>
   \<and> texturePixels \<lparr> path = ''block/stone'', width = 16, height = 16, area = 256,
                      tex_x = 0, tex_y = 0 \<rparr>
      \<inter> texturePixels \<lparr> path = ''block/dirt'', width = 16, height = 16, area = 256,
                         tex_x = 17, tex_y = 0 \<rparr> = {}"
proof -
  let ?ts = "[\<lparr> path = ''block/stone'', width = 16, height = 16, area = 256 \<rparr>,
              \<lparr> path = ''block/dirt'', width = 16, height = 16, area = 256 \<rparr>,
              \<lparr> path = ''block/water_still'', width = 32, height = 16, area = 512 \<rparr>]"
  let ?p0 = "\<lparr> path = ''block/stone'', width = 16, height = 16, area = 256,
               tex_x = 0, tex_y = 0 \<rparr>"
  let ?p1 = "\<lparr> path = ''block/dirt'', width = 16, height = 16, area = 256,
               tex_x = 17, tex_y = 0 \<rparr>"
  let ?p2 = "\<lparr> path = ''block/water_still'', width = 32, height = 16, area = 512,
               tex_x = 0, tex_y = 17 \<rparr>"
  have pos: "(0 :: nat) < 64" by simp
  have packed: "packTextures 64 1 ?ts = [?p0, ?p1, ?p2]"
    by (simp add: packTextures_def place_def)
  have d: "distinct (map path ?ts)" by simp
  note th = atlas_rects_and_disjointness [OF pos, of 1 ?ts]
  from th have "distinct (map path ?ts) \<longrightarrow>
      (\<forall>q \<in> set (packTextures 64 1 ?ts).
         snd (createAtlasCanvas 64 (packTextures 64 1 ?ts)) (path q)
           = Some \<lparr> uv_u = of_nat (tex_x q) / of_nat 64, uv_v = of_nat (tex_y q) / of_nat 64,
                    uv_width = of_nat (width q) / of_nat 64,
                    uv_height = of_nat (height q) / of_nat 64 \<rparr>)"
    by blast
  with d have "snd (createAtlasCanvas 64 (packTextures 64 1 ?ts)) (path ?p1)
           = Some \<lparr> uv_u = of_nat (tex_x ?p1) / of_nat 64, uv_v = of_nat (tex_y ?p1) / of_nat 64,
                    uv_width = of_nat (width ?p1) / of_nat 64,
                    uv_height = of_nat (height ?p1) / of_nat 64 \<rparr>"
    unfolding packed by simp
  then have uv: "snd (createAtlasCanvas 64 (packTextures 64 1 ?ts)) ''block/dirt''
      = Some \<lparr> uv_u = 17 / 64, uv_v = 0, uv_width = 1 / 4, uv_height = 1 / 4 \<rparr>"
    by simp
  from th have "\<forall>i j. i < j \<and> j < length (packTextures 64 1 ?ts) \<longrightarrow>
      texturePixels (packTextures 64 1 ?ts ! i) \<inter> texturePixels (packTextures 64 1 ?ts ! j) = {}"
    by blast
  then have "(0 :: nat) < 1 \<and> 1 < length [?p0, ?p1, ?p2] \<longrightarrow>
      texturePixels ([?p0, ?p1, ?p2] ! 0) \<inter> texturePixels ([?p0, ?p1, ?p2] ! 1) = {}"
    unfolding packed by blast
  then have dj: "texturePixels ?p0 \<inter> texturePixels ?p1 = {}" by simp
  from pos packed uv dj show ?thesis by (intro conjI)
qed

end
